theory Spec2Isabelle
  imports Complex_Main
begin

section \<open>JavaScript values used by the SDK\<close>

text \<open>
  Strings are byte lists (\<^typ>\<open>string\<close>); every string the modelled code inspects
  character by character (signature headers, decimal numbers, status tags) is ASCII.
  A JavaScript number is either a finite value, kept exact as a rational, or \<open>NaN\<close>;
  infinities and the rounding of IEEE doubles are not part of the model. Millisecond clock
  readings (\<open>Date.now()\<close>) are integers.
\<close>

datatype jsnumber = Num rat | NaN

text \<open>Truthiness of a \<open>number | null\<close> value: \<open>null\<close>, \<open>0\<close> and \<open>NaN\<close> are falsy.\<close>

fun truthy_number :: "jsnumber option \<Rightarrow> bool" where
  "truthy_number None = False"
| "truthy_number (Some NaN) = False"
| "truthy_number (Some (Num r)) = (r \<noteq> 0)"

text \<open>\<open>s || d\<close> for an optional string \<open>s\<close>: \<open>undefined\<close> and the empty string are falsy.\<close>

fun string_or :: "string option \<Rightarrow> string \<Rightarrow> string" where
  "string_or None d = d"
| "string_or (Some s) d = (if s = [] then d else s)"

text \<open>\<open>n || d\<close> for an optional integer option value: \<open>undefined\<close> and \<open>0\<close> are falsy.\<close>

fun number_or :: "int option \<Rightarrow> int \<Rightarrow> int" where
  "number_or None d = d"
| "number_or (Some n) d = (if n = 0 then d else n)"

subsection \<open>Decimal rendering of integers (template literals)\<close>

definition digit_char :: "nat \<Rightarrow> char" where
  "digit_char d = ''0123456789'' ! d"

fun show_nat :: "nat \<Rightarrow> string" where
  "show_nat n = (if n < 10 then [digit_char n] else show_nat (n div 10) @ [digit_char (n mod 10)])"

declare show_nat.simps [simp del]

definition show_int :: "int \<Rightarrow> string" where
  "show_int i = (if i < 0 then CHR ''-'' # show_nat (nat (- i)) else show_nat (nat i))"

section \<open>Error classes (errors.ts)\<close>

text \<open>
  Every SDK error carries a message and an optional HTTP status code; \<open>RateLimitError\<close>
  additionally carries \<open>retryAfter: number | null\<close>. The opaque \<open>response\<close> handle that
  the constructors store unchanged is left out. \<open>PlainError\<close> stands for a built-in
  \<open>Error\<close> that is not an SDK error (such as the ones raised by the wait loops).
\<close>

datatype error =
    PlainError string
  | CanveleteError string "int option"
  | AuthenticationError string "int option"
  | ValidationError string "int option"
  | NotFoundError string "int option"
  | RateLimitError string "jsnumber option" "int option"
  | ServerError string "int option"
  | InsufficientScopeError string "int option"

section \<open>Completion waits (resources/render.ts)\<close>

record RenderRecord =
  id_field :: string
  designId :: string
  format_field :: string
  status :: string
  outputUrl :: "string option"
  fileSize :: int
  createdAt :: string
  completedAt :: "string option"
  error_field :: "string option"

record BatchStatusResponse =
  jobs :: "RenderRecord list"
  completed :: bool

record WaitOptions =
  timeout :: "int option"
  pollInterval :: "int option"

text \<open>
  What a wait loop did: how it ended, the sleeps it requested (in order) and how many
  status fetches it made. \<open>Unfinished\<close> means that the supplied poll script ended while
  the loop was still polling.
\<close>

datatype 'a wait_outcome = Resolved 'a | Raised error | Unfinished

record 'a wait_run =
  outcome :: "'a wait_outcome"
  sleeps :: "int list"
  fetches :: nat

text \<open>
  The environment of a wait is the clock reading taken as \<open>startTime\<close> and a poll script:
  one entry per evaluation of the loop condition, holding the clock reading of that
  evaluation and the result the status request of that iteration produces (an SDK error
  if the request fails). The request of an entry is only made when the loop condition
  holds.
\<close>

type_synonym 'r poll_script = "(int \<times> (error + 'r)) list"

fun waitForCompletion_loop ::
  "int \<Rightarrow> int \<Rightarrow> int \<Rightarrow> RenderRecord poll_script \<Rightarrow> int list \<Rightarrow> nat \<Rightarrow> RenderRecord wait_run" where
  "waitForCompletion_loop tmo pollInt startTime [] sl n =
     \<lparr>outcome = Unfinished, sleeps = sl, fetches = n\<rparr>"
| "waitForCompletion_loop tmo pollInt startTime ((now, fetched) # rest) sl n =
     (if now - startTime < tmo then
        (case fetched of
           Inl e \<Rightarrow> \<lparr>outcome = Raised e, sleeps = sl, fetches = Suc n\<rparr>
         | Inr st \<Rightarrow>
             if status st = ''completed'' then
               \<lparr>outcome = Resolved st, sleeps = sl, fetches = Suc n\<rparr>
             else if status st = ''failed'' then
               \<lparr>outcome = Raised (PlainError
                   (''Render job failed: '' @ string_or (error_field st) ''Unknown error'')),
                sleeps = sl, fetches = Suc n\<rparr>
             else waitForCompletion_loop tmo pollInt startTime rest (sl @ [pollInt]) (Suc n))
      else
        \<lparr>outcome = Raised (PlainError (''Render job timed out after '' @ show_int tmo @ ''ms'')),
         sleeps = sl, fetches = n\<rparr>)"

definition waitForCompletion ::
  "WaitOptions \<Rightarrow> int \<Rightarrow> RenderRecord poll_script \<Rightarrow> RenderRecord wait_run" where
  "waitForCompletion options startTime polls =
     (let tmo = number_or (timeout options) 300000;
          pollInt = number_or (pollInterval options) 2000
      in waitForCompletion_loop tmo pollInt startTime polls [] 0)"

fun waitForBatch_loop ::
  "int \<Rightarrow> int \<Rightarrow> int \<Rightarrow> BatchStatusResponse poll_script \<Rightarrow> int list \<Rightarrow> nat
     \<Rightarrow> (RenderRecord list) wait_run" where
  "waitForBatch_loop tmo pollInt startTime [] sl n =
     \<lparr>outcome = Unfinished, sleeps = sl, fetches = n\<rparr>"
| "waitForBatch_loop tmo pollInt startTime ((now, fetched) # rest) sl n =
     (if now - startTime < tmo then
        (case fetched of
           Inl e \<Rightarrow> \<lparr>outcome = Raised e, sleeps = sl, fetches = Suc n\<rparr>
         | Inr response \<Rightarrow>
             if completed response then
               \<lparr>outcome = Resolved (jobs response), sleeps = sl, fetches = Suc n\<rparr>
             else waitForBatch_loop tmo pollInt startTime rest (sl @ [pollInt]) (Suc n))
      else
        \<lparr>outcome = Raised (PlainError (''Batch render timed out after '' @ show_int tmo @ ''ms'')),
         sleeps = sl, fetches = n\<rparr>)"

definition waitForBatch ::
  "WaitOptions \<Rightarrow> int \<Rightarrow> BatchStatusResponse poll_script \<Rightarrow> (RenderRecord list) wait_run" where
  "waitForBatch options startTime polls =
     (let tmo = number_or (timeout options) 600000;
          pollInt = number_or (pollInterval options) 5000
      in waitForBatch_loop tmo pollInt startTime polls [] 0)"

section \<open>String helpers of the JavaScript runtime\<close>

text \<open>\<open>String.prototype.toLowerCase\<close> on ASCII letters.\<close>

definition lower_char :: "char \<Rightarrow> char" where
  "lower_char c =
     (case map_of (zip ''ABCDEFGHIJKLMNOPQRSTUVWXYZ'' ''abcdefghijklmnopqrstuvwxyz'') c of
        None \<Rightarrow> c
      | Some l \<Rightarrow> l)"

definition toLowerCase :: "string \<Rightarrow> string" where
  "toLowerCase s = map lower_char s"

text \<open>\<open>String.prototype.includes\<close>: the second string occurs as a substring.\<close>

fun includes_str :: "string \<Rightarrow> string \<Rightarrow> bool" where
  "includes_str [] sub = (sub = [])"
| "includes_str (c # cs) sub = (take (length sub) (c # cs) = sub \<or> includes_str cs sub)"

text \<open>\<open>String.prototype.split\<close> with a one-character separator: never an empty array.\<close>

fun split :: "char \<Rightarrow> string \<Rightarrow> string list" where
  "split sep [] = [[]]"
| "split sep (c # cs) =
     (if c = sep then [] # split sep cs
      else (case split sep cs of [] \<Rightarrow> [[c]] | p # ps \<Rightarrow> (c # p) # ps))"

subsection \<open>parseInt\<close>

text \<open>
  The steps of ECMAScript's \<open>parseInt(string, radix)\<close>: skip leading white space, read a
  sign, fix the radix (an absent radix means 10, or 16 after a \<open>0x\<close> prefix), take the
  longest prefix of digits of that radix, and answer \<open>NaN\<close> when that prefix is empty.
\<close>

definition is_whitespace :: "char \<Rightarrow> bool" where
  "is_whitespace c = (let n = (of_char c :: nat) in n = 32 \<or> (9 \<le> n \<and> n \<le> 13))"

definition digit_value :: "char \<Rightarrow> nat option" where
  "digit_value c =
     (let n = (of_char c :: nat) in
      if 48 \<le> n \<and> n \<le> 57 then Some (n - 48)
      else if 97 \<le> n \<and> n \<le> 122 then Some (n - 87)
      else if 65 \<le> n \<and> n \<le> 90 then Some (n - 55)
      else None)"

definition is_radix_digit :: "nat \<Rightarrow> char \<Rightarrow> bool" where
  "is_radix_digit R c = (case digit_value c of None \<Rightarrow> False | Some v \<Rightarrow> v < R)"

definition radix_value :: "nat \<Rightarrow> string \<Rightarrow> nat" where
  "radix_value R z =
     foldl (\<lambda>acc c. case digit_value c of None \<Rightarrow> acc | Some v \<Rightarrow> acc * R + v) 0 z"

definition parseInt :: "string \<Rightarrow> nat option \<Rightarrow> jsnumber" where
  "parseInt string radix =
     (let S0 = dropWhile is_whitespace string;
          sign = (if S0 \<noteq> [] \<and> hd S0 = CHR ''-'' then - 1 else (1 :: int));
          S1 = (if S0 \<noteq> [] \<and> (hd S0 = CHR ''+'' \<or> hd S0 = CHR ''-'') then tl S0 else S0);
          R0 = (case radix of None \<Rightarrow> 0 | Some r \<Rightarrow> r)
      in if R0 \<noteq> 0 \<and> (R0 < 2 \<or> 36 < R0) then NaN
         else
           (let stripPrefix = (R0 = 0 \<or> R0 = 16);
                has_prefix = (stripPrefix \<and> (take 2 S1 = ''0x'' \<or> take 2 S1 = ''0X''));
                S2 = (if has_prefix then drop 2 S1 else S1);
                R = (if has_prefix then 16 else if R0 = 0 then 10 else R0);
                Z = takeWhile (is_radix_digit R) S2
            in if Z = [] then NaN else Num (of_int (sign * int (radix_value R Z)))))"

section \<open>Mapping HTTP responses to errors (client.ts)\<close>

text \<open>
  What \<open>handleResponseErrors\<close> reads of a response: the status code, the JSON body
  (\<open>None\<close> when \<open>response.json()\<close> throws) with its optional \<open>error\<close> and \<open>message\<close>
  strings, and the \<open>Retry-After\<close> header (\<open>None\<close> when \<open>headers.get\<close> answers null).
\<close>

record ErrorData =
  error_text :: "string option"
  message_text :: "string option"

record HttpResponse =
  resp_status :: int
  resp_json :: "ErrorData option"
  resp_retry_after :: "string option"

definition error_message :: "HttpResponse \<Rightarrow> string" where
  "error_message response =
     (let message = ''HTTP '' @ show_int (resp_status response)
      in case resp_json response of
           None \<Rightarrow> message
         | Some errorData \<Rightarrow>
             string_or (error_text errorData) (string_or (message_text errorData) message))"

text \<open>\<open>None\<close>: the function returns; \<open>Some e\<close>: it throws \<open>e\<close>.\<close>

definition handleResponseErrors :: "HttpResponse \<Rightarrow> error option" where
  "handleResponseErrors response =
     (if resp_status response < 400 then None
      else
        (let message = error_message response;
             st = resp_status response
         in if st = 401 then Some (AuthenticationError message (Some 401))
            else if st = 403 then
              (if includes_str (toLowerCase message) ''scope''
               then Some (InsufficientScopeError message (Some 403))
               else Some (AuthenticationError message (Some 403)))
            else if st = 404 then Some (NotFoundError message (Some 404))
            else if st = 422 then Some (ValidationError message (Some 422))
            else if st = 429 then
              (let retryAfter = resp_retry_after response
               in Some (RateLimitError message
                    (case retryAfter of
                       None \<Rightarrow> None
                     | Some h \<Rightarrow> if h = [] then None else Some (parseInt h None))
                    (Some 429)))
            else if 500 \<le> st then Some (ServerError message (Some st))
            else Some (CanveleteError message (Some st))))"

text \<open>The error kinds of the specification, read off the class of an error.\<close>

datatype error_class =
    ErrorClass | CanveleteErrorClass | AuthenticationErrorClass | ValidationErrorClass
  | NotFoundErrorClass | RateLimitErrorClass | ServerErrorClass | InsufficientScopeErrorClass

fun class_of :: "error \<Rightarrow> error_class" where
  "class_of (PlainError m) = ErrorClass"
| "class_of (CanveleteError m sc) = CanveleteErrorClass"
| "class_of (AuthenticationError m sc) = AuthenticationErrorClass"
| "class_of (ValidationError m sc) = ValidationErrorClass"
| "class_of (NotFoundError m sc) = NotFoundErrorClass"
| "class_of (RateLimitError m ra sc) = RateLimitErrorClass"
| "class_of (ServerError m sc) = ServerErrorClass"
| "class_of (InsufficientScopeError m sc) = InsufficientScopeErrorClass"

text \<open>
  \<open>e instanceof C\<close>: every SDK class extends \<open>CanveleteError\<close>, which extends \<open>Error\<close>.
\<close>

definition instanceof :: "error \<Rightarrow> error_class \<Rightarrow> bool" where
  "instanceof e c =
     (c = class_of e \<or> c = ErrorClass \<or> (c = CanveleteErrorClass \<and> class_of e \<noteq> ErrorClass))"

fun retryAfter :: "error \<Rightarrow> jsnumber option" where
  "retryAfter (RateLimitError m ra sc) = ra"
| "retryAfter e = None"

text \<open>
  The table of the specification, in its words: the kind for a status code and a message,
  \<open>None\<close> where no error is raised.
\<close>

definition spec_error_kind :: "int \<Rightarrow> string \<Rightarrow> error_class option" where
  "spec_error_kind st message =
     (if st = 401 then Some AuthenticationErrorClass
      else if st = 403 \<and> includes_str (toLowerCase message) ''scope'' then Some InsufficientScopeErrorClass
      else if st = 403 then Some AuthenticationErrorClass
      else if st = 404 then Some NotFoundErrorClass
      else if st = 422 then Some ValidationErrorClass
      else if st = 429 then Some RateLimitErrorClass
      else if 500 \<le> st then Some ServerErrorClass
      else if 400 \<le> st then Some CanveleteErrorClass
      else None)"

section \<open>Retry with backoff (utils/retry.ts)\<close>

record RetryConfig =
  maxAttempts :: rat
  backoffFactor :: rat
  initialDelay :: rat
  maxDelay :: rat
  retryOn :: "error_class list"

definition defaultConfig :: RetryConfig where
  "defaultConfig = \<lparr>maxAttempts = 3, backoffFactor = 2, initialDelay = 1000, maxDelay = 60000,
     retryOn = [RateLimitErrorClass, ServerErrorClass]\<rparr>"

text \<open>
  What a run of \<open>withRetry\<close> did: the value returned or the error thrown, the arguments of
  its \<open>sleep\<close> calls in order, and the number of times it invoked the operation.
\<close>

record 'a retry_run =
  result :: "error + 'a"
  waits :: "rat list"
  invocations :: nat

definition shouldRetry :: "RetryConfig \<Rightarrow> error \<Rightarrow> bool" where
  "shouldRetry cfg e = list_ex (instanceof e) (retryOn cfg)"

text \<open>The condition \<open>error instanceof RateLimitError && error.retryAfter\<close>.\<close>

definition rate_limit_hint :: "error \<Rightarrow> bool" where
  "rate_limit_hint e = (instanceof e RateLimitErrorClass \<and> truthy_number (retryAfter e))"

text \<open>\<open>error.retryAfter * 1000\<close>, read when the condition above holds.\<close>

definition hint_ms :: "error \<Rightarrow> rat" where
  "hint_ms e = (case retryAfter e of Some (Num r) \<Rightarrow> r * 1000 | _ \<Rightarrow> 0)"

text \<open>
  The operation is given by the outcome of each of its invocations, counted from 0. The
  loop invokes it once per iteration and counts the failures in \<open>attempt\<close>, so at the head
  of the loop \<open>attempt\<close> is also the number of invocations made so far. Logging is left out.
\<close>

function withRetry_loop ::
  "RetryConfig \<Rightarrow> (nat \<Rightarrow> error + 'a) \<Rightarrow> nat \<Rightarrow> rat \<Rightarrow> rat list \<Rightarrow> 'a retry_run" where
  "withRetry_loop cfg fn attempt delay sl =
     (if of_nat attempt < maxAttempts cfg then
        (case fn attempt of
           Inr v \<Rightarrow> \<lparr>result = Inr v, waits = sl, invocations = Suc attempt\<rparr>
         | Inl e \<Rightarrow>
             if \<not> shouldRetry cfg e \<or> maxAttempts cfg \<le> of_nat (Suc attempt) then
               \<lparr>result = Inl e, waits = sl, invocations = Suc attempt\<rparr>
             else
               withRetry_loop cfg fn (Suc attempt)
                 (min ((if rate_limit_hint e then hint_ms e else delay) * backoffFactor cfg)
                      (maxDelay cfg))
                 (sl @ [if rate_limit_hint e then hint_ms e else delay]))
      else
        \<lparr>result = Inl (CanveleteError ''Max retry attempts reached'' None), waits = sl,
         invocations = attempt\<rparr>)"
  by pat_completeness auto

termination
proof (relation "measure (\<lambda>(cfg, fn, attempt, delay, sl). nat \<lceil>maxAttempts cfg\<rceil> - attempt)")
  show "wf (measure (\<lambda>(cfg :: RetryConfig, fn :: nat \<Rightarrow> error + 'a, attempt, delay :: rat,
                        sl :: rat list). nat \<lceil>maxAttempts cfg\<rceil> - attempt))"
    by simp
next
  fix cfg :: RetryConfig and fn :: "nat \<Rightarrow> error + 'a" and attempt :: nat and delay :: rat
    and sl :: "rat list" and e :: error
  assume "\<not> (\<not> shouldRetry cfg e \<or> maxAttempts cfg \<le> of_nat (Suc attempt))"
  then have "of_int (int (Suc attempt)) < maxAttempts cfg" by simp
  then have "int (Suc attempt) < \<lceil>maxAttempts cfg\<rceil>" by (simp only: less_ceiling_iff)
  then have "nat \<lceil>maxAttempts cfg\<rceil> - Suc attempt < nat \<lceil>maxAttempts cfg\<rceil> - attempt"
    by linarith
  then show "((cfg, fn, Suc attempt,
               min ((if rate_limit_hint e then hint_ms e else delay) * backoffFactor cfg)
                   (maxDelay cfg),
               sl @ [if rate_limit_hint e then hint_ms e else delay]),
              (cfg, fn, attempt, delay, sl))
             \<in> measure (\<lambda>(cfg, fn, attempt, delay, sl). nat \<lceil>maxAttempts cfg\<rceil> - attempt)"
    by simp
qed

declare withRetry_loop.simps [simp del]

definition withRetry :: "RetryConfig \<Rightarrow> (nat \<Rightarrow> error + 'a) \<Rightarrow> 'a retry_run" where
  "withRetry cfg fn = withRetry_loop cfg fn 0 (initialDelay cfg) []"

section \<open>Webhook signatures (utils/webhooks.ts)\<close>

text \<open>
  \<open>createHmac('sha256', secret).update(data).digest('hex')\<close> belongs to the runtime; the
  functions take it as the parameter \<open>hmac\<close>, applied to the secret and the data. Its
  results are digests: 64 lower-case hexadecimal characters.
\<close>

definition is_hex_char :: "char \<Rightarrow> bool" where
  "is_hex_char c = (c \<in> set ''0123456789abcdef'')"

definition is_hex_digest :: "string \<Rightarrow> bool" where
  "is_hex_digest d = (length d = 64 \<and> list_all is_hex_char d)"

record WebhookVerifyOptions =
  payload :: string
  signature :: string
  secret :: string
  tolerance :: "rat option"

text \<open>The loop that fills \<open>signatureParts\<close>: a later pair with the same key overwrites.\<close>

fun collect_parts :: "string list \<Rightarrow> (string \<rightharpoonup> string) \<Rightarrow> (string \<rightharpoonup> string)" where
  "collect_parts [] signatureParts = signatureParts"
| "collect_parts (part # parts) signatureParts =
     (case split CHR ''='' part of
        key # val # others \<Rightarrow>
          if key \<noteq> [] \<and> val \<noteq> [] then collect_parts parts (signatureParts(key \<mapsto> val))
          else collect_parts parts signatureParts
      | _ \<Rightarrow> collect_parts parts signatureParts)"

text \<open>\<open>crypto.timingSafeEqual\<close> throws a \<open>RangeError\<close> on buffers of different length.\<close>

definition timingSafeEqual :: "string \<Rightarrow> string \<Rightarrow> error + bool" where
  "timingSafeEqual a b =
     (if length a \<noteq> length b then Inl (PlainError ''Input buffers must have the same byte length'')
      else Inr (a = b))"

text \<open>\<open>Math.abs(now - timestampNum) > tolerance\<close>; a comparison with \<open>NaN\<close> is false.\<close>

fun outside_tolerance :: "int \<Rightarrow> jsnumber \<Rightarrow> rat \<Rightarrow> bool" where
  "outside_tolerance now NaN tol = False"
| "outside_tolerance now (Num t) tol = (tol < \<bar>of_int now - t\<bar>)"

text \<open>The second argument is the reading of \<open>Date.now()\<close> in milliseconds.\<close>

definition verifyWebhookSignature ::
  "(string \<Rightarrow> string \<Rightarrow> string) \<Rightarrow> int \<Rightarrow> WebhookVerifyOptions \<Rightarrow> bool" where
  "verifyWebhookSignature hmac clock_ms options =
     (let tol = (case tolerance options of None \<Rightarrow> 300 | Some t \<Rightarrow> t);
          parts = split CHR '','' (signature options);
          signatureParts = collect_parts parts Map.empty
      in case (signatureParts ''t'', signatureParts ''v1'') of
           (Some timestamp, Some v1Signature) \<Rightarrow>
             if timestamp = [] \<or> v1Signature = [] then False
             else
               (let timestampNum = parseInt timestamp (Some 10);
                    now = clock_ms div 1000
                in if outside_tolerance now timestampNum tol then False
                   else
                     (let signedPayload = timestamp @ ''.'' @ payload options;
                          expectedSignature = hmac (secret options) signedPayload
                      in case timingSafeEqual v1Signature expectedSignature of
                           Inl e \<Rightarrow> False
                         | Inr b \<Rightarrow> b))
         | _ \<Rightarrow> False)"

definition generateWebhookSignature ::
  "(string \<Rightarrow> string \<Rightarrow> string) \<Rightarrow> int \<Rightarrow> string \<Rightarrow> string \<Rightarrow> string" where
  "generateWebhookSignature hmac clock_ms payl secr =
     (let timestamp = clock_ms div 1000;
          signedPayload = show_int timestamp @ ''.'' @ payl;
          sig = hmac secr signedPayload
      in ''t='' @ show_int timestamp @ '',v1='' @ sig)"

text \<open>
  A stand-in for the digest function in closed examples: the hexadecimal bytes of the
  secret and the data, cut or padded with zeros to 64 characters.
\<close>

definition hex_char :: "nat \<Rightarrow> char" where
  "hex_char d = ''0123456789abcdef'' ! d"

definition example_hmac :: "string \<Rightarrow> string \<Rightarrow> string" where
  "example_hmac key data =
     take 64 (concat (map (\<lambda>c. [hex_char (of_char c div 16), hex_char (of_char c mod 16)])
                (key @ data))
       @ ''0000000000000000000000000000000000000000000000000000000000000000'')"

section \<open>Predicates and data used in the statements\<close>

text \<open>
  A poll that leaves the single-job wait polling: the loop condition holds, the request
  succeeds and the status is neither \<open>completed\<close> nor \<open>failed\<close>.
\<close>

definition still_waiting :: "int \<Rightarrow> int \<Rightarrow> int \<times> (error + RenderRecord) \<Rightarrow> bool" where
  "still_waiting tmo startTime p =
     (case p of
        (now, Inr st) \<Rightarrow>
          now - startTime < tmo \<and> status st \<noteq> ''completed'' \<and> status st \<noteq> ''failed''
      | (now, Inl e) \<Rightarrow> False)"

text \<open>
  A poll that leaves the batch wait polling: the loop condition holds, the request succeeds
  and the \<open>completed\<close> flag of the response is false, whatever its jobs say.
\<close>

definition batch_pending :: "int \<Rightarrow> int \<Rightarrow> int \<times> (error + BatchStatusResponse) \<Rightarrow> bool" where
  "batch_pending tmo startTime p =
     (case p of
        (now, Inr response) \<Rightarrow> now - startTime < tmo \<and> \<not> completed response
      | (now, Inl e) \<Rightarrow> False)"

definition job_example :: "string \<Rightarrow> string option \<Rightarrow> RenderRecord" where
  "job_example s e =
     \<lparr>id_field = ''job-123'', designId = ''design-1'', format_field = ''png'', status = s,
      outputUrl = None, fileSize = 0, createdAt = ''2024-01-15T10:00:00Z'', completedAt = None,
      error_field = e\<rparr>"

text \<open>Operations for the examples: their outcomes, invocation by invocation.\<close>

definition hint5_then_server :: "nat \<Rightarrow> error + string" where
  "hint5_then_server i =
     (if i = 0 then Inl (RateLimitError ''Rate limited'' (Some (Num 5)) (Some 429))
      else if i = 1 then Inl (ServerError ''Server error'' (Some 503))
      else Inr ''success'')"

definition hint0_then_success :: "nat \<Rightarrow> error + string" where
  "hint0_then_success i =
     (if i = 0 then Inl (RateLimitError ''Rate limited'' (Some (Num 0)) (Some 429))
      else Inr ''success'')"



section \<open>Defaults of the wait options\<close>

text \<open>
  C10. An explicit timeout of 0 or poll interval of 0 is replaced by the default, exactly
  as if the option had been omitted: 300000 ms and 2000 ms for a single job, 600000 ms
  and 5000 ms for a batch. Neither wait times out at once or polls without sleeping.
\<close>

theorem wait_zero_options_are_defaults:
  "waitForCompletion (options\<lparr>timeout := Some 0\<rparr>) startTime polls
     = waitForCompletion (options\<lparr>timeout := None\<rparr>) startTime polls
   \<and> waitForCompletion (options\<lparr>pollInterval := Some 0\<rparr>) startTime polls
     = waitForCompletion (options\<lparr>pollInterval := None\<rparr>) startTime polls
   \<and> waitForCompletion \<lparr>timeout = Some 0, pollInterval = Some 0\<rparr> startTime polls
     = waitForCompletion_loop 300000 2000 startTime polls [] 0
   \<and> waitForBatch (options\<lparr>timeout := Some 0\<rparr>) startTime bpolls
     = waitForBatch (options\<lparr>timeout := None\<rparr>) startTime bpolls
   \<and> waitForBatch (options\<lparr>pollInterval := Some 0\<rparr>) startTime bpolls
     = waitForBatch (options\<lparr>pollInterval := None\<rparr>) startTime bpolls
   \<and> waitForBatch \<lparr>timeout = Some 0, pollInterval = Some 0\<rparr> startTime bpolls
     = waitForBatch_loop 600000 5000 startTime bpolls [] 0"
  by (simp add: waitForCompletion_def waitForBatch_def)

section \<open>The single-job wait\<close>

lemma waitForCompletion_loop_skip:
  "list_all (still_waiting tmo startTime) pre \<Longrightarrow>
   waitForCompletion_loop tmo p startTime (pre @ rest) sl n
     = waitForCompletion_loop tmo p startTime rest (sl @ replicate (length pre) p) (n + length pre)"
proof (induction pre arbitrary: sl n)
  case Nil
  then show ?case by simp
next
  case (Cons a pre)
  obtain now fetched where a: "a = (now, fetched)" by (cases a)
  from Cons.prems a obtain st where st: "fetched = Inr st" "now - startTime < tmo"
      "status st \<noteq> ''completed''" "status st \<noteq> ''failed''"
    by (cases fetched) (auto simp: still_waiting_def)
  from Cons.prems have "list_all (still_waiting tmo startTime) pre" by simp
  from Cons.IH[OF this, of "sl @ [p]" "Suc n"] a st show ?case
    by (simp add: replicate_app_Cons_same)
qed

text \<open>
  C7. After any number of polls that found the job in a non-terminal status (any status
  string other than \<open>completed\<close> and \<open>failed\<close>), each followed by a sleep of the poll
  interval: the first poll that finds \<open>completed\<close> returns that job record; the first poll
  that finds \<open>failed\<close> raises an error carrying the job's failure reason; and when the
  elapsed time has reached the timeout at the loop condition, the timeout error is raised
  without another status request, the elapsed time being checked before every poll.
\<close>

theorem waitForCompletion_state_machine:
  assumes "list_all (still_waiting (number_or (timeout options) 300000) startTime) pre"
  shows
    "(now - startTime < number_or (timeout options) 300000 \<and> status st = ''completed'' \<longrightarrow>
        waitForCompletion options startTime (pre @ (now, Inr st) # rest)
          = \<lparr>outcome = Resolved st,
             sleeps = replicate (length pre) (number_or (pollInterval options) 2000),
             fetches = Suc (length pre)\<rparr>)
   \<and> (now - startTime < number_or (timeout options) 300000 \<and> status st = ''failed'' \<longrightarrow>
        waitForCompletion options startTime (pre @ (now, Inr st) # rest)
          = \<lparr>outcome = Raised (PlainError
               (''Render job failed: '' @ string_or (error_field st) ''Unknown error'')),
             sleeps = replicate (length pre) (number_or (pollInterval options) 2000),
             fetches = Suc (length pre)\<rparr>)
   \<and> (\<not> now - startTime < number_or (timeout options) 300000 \<longrightarrow>
        waitForCompletion options startTime (pre @ (now, fetched) # rest)
          = \<lparr>outcome = Raised (PlainError (''Render job timed out after ''
               @ show_int (number_or (timeout options) 300000) @ ''ms'')),
             sleeps = replicate (length pre) (number_or (pollInterval options) 2000),
             fetches = length pre\<rparr>)
   \<and> waitForCompletion options startTime pre
          = \<lparr>outcome = Unfinished,
             sleeps = replicate (length pre) (number_or (pollInterval options) 2000),
             fetches = length pre\<rparr>"
  using waitForCompletion_loop_skip[OF assms, of _ "[]" "[]" 0]
        waitForCompletion_loop_skip[OF assms, of _ "(now, Inr st) # rest" "[]" 0]
        waitForCompletion_loop_skip[OF assms, of _ "(now, fetched) # rest" "[]" 0]
  by (simp add: waitForCompletion_def)

theorem waitForCompletion_state_machine_witness:
  "waitForCompletion \<lparr>timeout = None, pollInterval = Some 10\<rparr> 1000
      [(1000, Inr (job_example ''processing'' None)),
       (1012, Inr (job_example ''completed'' None))]
     = \<lparr>outcome = Resolved (job_example ''completed'' None), sleeps = [10], fetches = 2\<rparr>
   \<and> waitForCompletion \<lparr>timeout = None, pollInterval = Some 10\<rparr> 1000
      [(1000, Inr (job_example ''queued'' None)),
       (1012, Inr (job_example ''failed'' (Some ''bad element'')))]
     = \<lparr>outcome = Raised (PlainError ''Render job failed: bad element''),
        sleeps = [10], fetches = 2\<rparr>
   \<and> waitForCompletion \<lparr>timeout = Some 5000, pollInterval = None\<rparr> 1000
      [(1000, Inr (job_example ''processing'' None)),
       (6000, Inr (job_example ''completed'' None))]
     = \<lparr>outcome = Raised (PlainError ''Render job timed out after 5000ms''),
        sleeps = [2000], fetches = 1\<rparr>"
  using waitForCompletion_state_machine[of "\<lparr>timeout = None, pollInterval = Some 10\<rparr>" 1000
          "[(1000, Inr (job_example ''processing'' None))]" 1012
          "job_example ''completed'' None" "[]"]
        waitForCompletion_state_machine[of "\<lparr>timeout = None, pollInterval = Some 10\<rparr>" 1000
          "[(1000, Inr (job_example ''queued'' None))]" 1012
          "job_example ''failed'' (Some ''bad element'')" "[]"]
        waitForCompletion_state_machine[of "\<lparr>timeout = Some 5000, pollInterval = None\<rparr>" 1000
          "[(1000, Inr (job_example ''processing'' None))]" 6000 _ "[]"
          "Inr (job_example ''completed'' None)"]
  by (simp add: still_waiting_def job_example_def show_int_def show_nat.simps digit_char_def)

section \<open>The batch wait\<close>

lemma waitForBatch_loop_skip:
  "list_all (batch_pending tmo startTime) pre \<Longrightarrow>
   waitForBatch_loop tmo p startTime (pre @ rest) sl n
     = waitForBatch_loop tmo p startTime rest (sl @ replicate (length pre) p) (n + length pre)"
proof (induction pre arbitrary: sl n)
  case Nil
  then show ?case by simp
next
  case (Cons a pre)
  obtain now fetched where a: "a = (now, fetched)" by (cases a)
  from Cons.prems a obtain response where r: "fetched = Inr response" "now - startTime < tmo"
      "\<not> completed response"
    by (cases fetched) (auto simp: batch_pending_def)
  from Cons.prems have "list_all (batch_pending tmo startTime) pre" by simp
  from Cons.IH[OF this, of "sl @ [p]" "Suc n"] a r show ?case
    by (simp add: replicate_app_Cons_same)
qed

text \<open>
  C8. While the responses carry a false completion flag the batch wait keeps polling,
  whatever the statuses of the individual jobs are (all \<open>completed\<close>, or some \<open>failed\<close>):
  it neither resolves nor raises. It resolves with the job list of the first response
  whose flag is true, in the server's order, or raises the timeout error once the elapsed
  time has reached the timeout; the flag is read from the response and never computed
  from the jobs.
\<close>

theorem waitForBatch_follows_flag:
  assumes "list_all (batch_pending (number_or (timeout options) 600000) startTime) pre"
  shows
    "(now - startTime < number_or (timeout options) 600000 \<and> completed response \<longrightarrow>
        waitForBatch options startTime (pre @ (now, Inr response) # rest)
          = \<lparr>outcome = Resolved (jobs response),
             sleeps = replicate (length pre) (number_or (pollInterval options) 5000),
             fetches = Suc (length pre)\<rparr>)
   \<and> (\<not> now - startTime < number_or (timeout options) 600000 \<longrightarrow>
        waitForBatch options startTime (pre @ (now, fetched) # rest)
          = \<lparr>outcome = Raised (PlainError (''Batch render timed out after ''
               @ show_int (number_or (timeout options) 600000) @ ''ms'')),
             sleeps = replicate (length pre) (number_or (pollInterval options) 5000),
             fetches = length pre\<rparr>)
   \<and> waitForBatch options startTime pre
          = \<lparr>outcome = Unfinished,
             sleeps = replicate (length pre) (number_or (pollInterval options) 5000),
             fetches = length pre\<rparr>"
  using waitForBatch_loop_skip[OF assms, of _ "[]" "[]" 0]
        waitForBatch_loop_skip[OF assms, of _ "(now, Inr response) # rest" "[]" 0]
        waitForBatch_loop_skip[OF assms, of _ "(now, fetched) # rest" "[]" 0]
  by (simp add: waitForBatch_def)

theorem waitForBatch_follows_flag_witness:
  "waitForBatch \<lparr>timeout = None, pollInterval = Some 10\<rparr> 1000
      [(1000, Inr \<lparr>jobs = [job_example ''completed'' None, job_example ''completed'' None],
                   completed = False\<rparr>),
       (1011, Inr \<lparr>jobs = [job_example ''failed'' (Some ''bad element'')], completed = False\<rparr>),
       (1022, Inr \<lparr>jobs = [job_example ''failed'' (Some ''bad element''),
                           job_example ''completed'' None], completed = True\<rparr>)]
     = \<lparr>outcome = Resolved [job_example ''failed'' (Some ''bad element''),
                            job_example ''completed'' None],
        sleeps = [10, 10], fetches = 3\<rparr>
   \<and> waitForBatch \<lparr>timeout = Some 20, pollInterval = Some 10\<rparr> 1000
      [(1000, Inr \<lparr>jobs = [job_example ''completed'' None, job_example ''completed'' None],
                   completed = False\<rparr>),
       (1011, Inr \<lparr>jobs = [job_example ''failed'' (Some ''bad element'')], completed = False\<rparr>),
       (1022, Inr \<lparr>jobs = [job_example ''completed'' None], completed = True\<rparr>)]
     = \<lparr>outcome = Raised (PlainError ''Batch render timed out after 20ms''),
        sleeps = [10, 10], fetches = 2\<rparr>"
  using waitForBatch_follows_flag[of "\<lparr>timeout = None, pollInterval = Some 10\<rparr>" 1000
          "[(1000, Inr \<lparr>jobs = [job_example ''completed'' None, job_example ''completed'' None],
                        completed = False\<rparr>),
            (1011, Inr \<lparr>jobs = [job_example ''failed'' (Some ''bad element'')],
                        completed = False\<rparr>)]"
          1022
          "\<lparr>jobs = [job_example ''failed'' (Some ''bad element''), job_example ''completed'' None],
            completed = True\<rparr>" "[]"]
        waitForBatch_follows_flag[of "\<lparr>timeout = Some 20, pollInterval = Some 10\<rparr>" 1000
          "[(1000, Inr \<lparr>jobs = [job_example ''completed'' None, job_example ''completed'' None],
                        completed = False\<rparr>),
            (1011, Inr \<lparr>jobs = [job_example ''failed'' (Some ''bad element'')],
                        completed = False\<rparr>)]"
          1022 _ "[]" "Inr \<lparr>jobs = [job_example ''completed'' None], completed = True\<rparr>"]
  by (simp add: batch_pending_def show_int_def show_nat.simps digit_char_def)

section \<open>Mapping of HTTP statuses\<close>

text \<open>
  C5. For every status code and parsed message the mapper produces exactly one error kind,
  the one of the table: 401 Authentication; 403 InsufficientScope when the message contains
  \<open>scope\<close> in any letter case, Authentication otherwise; 404 NotFound; 422 Validation;
  429 RateLimit; 500 and above Server; any other status from 400 the generic error; below
  400 no error.
\<close>

theorem handleResponseErrors_table:
  "map_option class_of (handleResponseErrors response)
     = spec_error_kind (resp_status response) (error_message response)"
  by (simp add: handleResponseErrors_def spec_error_kind_def Let_def)

theorem handleResponseErrors_table_witness:
  "handleResponseErrors \<lparr>resp_status = 403,
       resp_json = Some \<lparr>error_text = None,
                         message_text = Some ''Insufficient SCOPE for this action''\<rparr>,
       resp_retry_after = None\<rparr>
     = Some (InsufficientScopeError ''Insufficient SCOPE for this action'' (Some 403))
   \<and> map_option class_of (handleResponseErrors \<lparr>resp_status = 403,
       resp_json = Some \<lparr>error_text = Some ''forbidden'', message_text = None\<rparr>,
       resp_retry_after = None\<rparr>)
     = Some AuthenticationErrorClass
   \<and> map_option class_of (handleResponseErrors \<lparr>resp_status = 418, resp_json = None,
       resp_retry_after = None\<rparr>)
     = Some CanveleteErrorClass
   \<and> map_option class_of (handleResponseErrors \<lparr>resp_status = 204, resp_json = None,
       resp_retry_after = None\<rparr>)
     = None"
  using handleResponseErrors_table[of "\<lparr>resp_status = 403,
       resp_json = Some \<lparr>error_text = Some ''forbidden'', message_text = None\<rparr>,
       resp_retry_after = None\<rparr>"]
    handleResponseErrors_table[of "\<lparr>resp_status = 418, resp_json = None,
       resp_retry_after = None\<rparr>"]
    handleResponseErrors_table[of "\<lparr>resp_status = 204, resp_json = None,
       resp_retry_after = None\<rparr>"]
  by (simp add: handleResponseErrors_def spec_error_kind_def error_message_def
        toLowerCase_def lower_char_def)

section \<open>The retry loop\<close>


lemma withRetry_loop_return:
  "of_nat attempt < maxAttempts cfg \<Longrightarrow> fn attempt = Inr v \<Longrightarrow>
   withRetry_loop cfg fn attempt delay sl = \<lparr>result = Inr v, waits = sl, invocations = Suc attempt\<rparr>"
  by (subst withRetry_loop.simps) simp

lemma withRetry_loop_exhausted:
  "of_nat attempt < maxAttempts cfg \<Longrightarrow> fn attempt = Inl e \<Longrightarrow> maxAttempts cfg \<le> of_nat (Suc attempt) \<Longrightarrow>
   withRetry_loop cfg fn attempt delay sl = \<lparr>result = Inl e, waits = sl, invocations = Suc attempt\<rparr>"
  by (subst withRetry_loop.simps) simp

lemma withRetry_loop_again:
  "fn attempt = Inl e \<Longrightarrow> shouldRetry cfg e \<Longrightarrow> of_nat (Suc attempt) < maxAttempts cfg \<Longrightarrow>
   withRetry_loop cfg fn attempt delay sl =
     withRetry_loop cfg fn (Suc attempt)
       (min ((if rate_limit_hint e then hint_ms e else delay) * backoffFactor cfg) (maxDelay cfg))
       (sl @ [if rate_limit_hint e then hint_ms e else delay])"
proof -
  assume a: "fn attempt = Inl e" "shouldRetry cfg e" "of_nat (Suc attempt) < maxAttempts cfg"
  have "(of_nat attempt :: rat) < of_nat (Suc attempt)" by simp
  with a(3) have "of_nat attempt < maxAttempts cfg" by linarith
  with a show ?thesis by (subst withRetry_loop.simps) (simp add: not_le)
qed

lemma waits_extend:
  "\<exists>more. waits (withRetry_loop cfg fn attempt delay sl) = sl @ more"
proof (induction cfg fn attempt delay sl rule: withRetry_loop.induct)
  case (1 cfg fn attempt delay sl)
  show ?case
  proof (cases "of_nat attempt < maxAttempts cfg")
    case False
    then show ?thesis by (subst withRetry_loop.simps) simp
  next
    case True
    show ?thesis
    proof (cases "fn attempt")
      case (Inr v)
      with True show ?thesis by (simp add: withRetry_loop_return)
    next
      case (Inl e)
      show ?thesis
      proof (cases "\<not> shouldRetry cfg e \<or> maxAttempts cfg \<le> of_nat (Suc attempt)")
        case True
        with Inl \<open>of_nat attempt < maxAttempts cfg\<close> show ?thesis
          by (subst withRetry_loop.simps) auto
      next
        case False
        from "1.IH"[OF \<open>of_nat attempt < maxAttempts cfg\<close> Inl False]
        obtain more where "waits (withRetry_loop cfg fn (Suc attempt)
           (min ((if rate_limit_hint e then hint_ms e else delay) * backoffFactor cfg) (maxDelay cfg))
           (sl @ [if rate_limit_hint e then hint_ms e else delay]))
           = (sl @ [if rate_limit_hint e then hint_ms e else delay]) @ more" by blast
        moreover from False Inl have "withRetry_loop cfg fn attempt delay sl =
          withRetry_loop cfg fn (Suc attempt)
           (min ((if rate_limit_hint e then hint_ms e else delay) * backoffFactor cfg) (maxDelay cfg))
           (sl @ [if rate_limit_hint e then hint_ms e else delay])"
          by (intro withRetry_loop_again) (auto simp: not_le)
        ultimately show ?thesis by simp
      qed
    qed
  qed
qed





text \<open>
  The guard \<open>error instanceof RateLimitError && error.retryAfter\<close> holds exactly for a
  RateLimit error whose \<open>retryAfter\<close> is a number other than 0; with \<open>null\<close>, \<open>0\<close> or
  \<open>NaN\<close> the retry sleeps the current delay.
\<close>

lemma rate_limit_hint_iff:
  "rate_limit_hint e \<longleftrightarrow> (\<exists>m r sc. e = RateLimitError m (Some (Num r)) sc \<and> r \<noteq> 0)"
proof (cases e)
  case (RateLimitError m ra sc)
  then show ?thesis
  proof (cases ra)
    case None
    with RateLimitError show ?thesis by (simp add: rate_limit_hint_def instanceof_def)
  next
    case (Some n)
    with RateLimitError show ?thesis
      by (cases n) (simp_all add: rate_limit_hint_def instanceof_def)
  qed
qed (simp_all add: rate_limit_hint_def instanceof_def)

lemma withRetry_without_hint_waits_delay:
  assumes "fn attempt = Inl e" and "\<not> rate_limit_hint e" and "shouldRetry cfg e"
    and "of_nat (Suc attempt) < maxAttempts cfg"
  shows "take (Suc (length sl)) (waits (withRetry_loop cfg fn attempt delay sl)) = sl @ [delay]"
proof -
  have step: "withRetry_loop cfg fn attempt delay sl
      = withRetry_loop cfg fn (Suc attempt) (min (delay * backoffFactor cfg) (maxDelay cfg))
          (sl @ [delay])"
    using withRetry_loop_again[where fn=fn and attempt=attempt and e=e and cfg=cfg
        and delay=delay and sl=sl, OF assms(1) assms(3) assms(4)] assms(2)
    by simp
  obtain more where "waits (withRetry_loop cfg fn (Suc attempt)
        (min (delay * backoffFactor cfg) (maxDelay cfg)) (sl @ [delay])) = (sl @ [delay]) @ more"
    using waits_extend by blast
  then show ?thesis by (simp add: step)
qed

lemma nan_hint_waits_delay:
  assumes "fn attempt = Inl (RateLimitError m (Some NaN) sc)"
    and "shouldRetry cfg (RateLimitError m (Some NaN) sc)"
    and "of_nat (Suc attempt) < maxAttempts cfg"
  shows "take (Suc (length sl)) (waits (withRetry_loop cfg fn attempt delay sl)) = sl @ [delay]"
  using assms(1) _ assms(2,3)
  by (rule withRetry_without_hint_waits_delay) (simp add: rate_limit_hint_def)

text \<open>
  C3, as the code has it. Whenever a retryable RateLimit error carries a truthy
  \<open>retryAfter\<close>, that is a number \<open>r\<close> other than 0 (so neither \<open>null\<close>, nor \<open>0\<close>, nor
  \<open>NaN\<close>), and attempts remain, the sleep before the next attempt is exactly \<open>r * 1000\<close>
  ms, whatever the current delay is. The hinted wait replaces the delay: when the retry
  that directly follows the hinted wait has no truthy hint, that retry waits
  \<open>min (r * 1000 * backoffFactor) maxDelay\<close>.
\<close>

theorem withRetry_hint_sets_delay:
  assumes "fn attempt = Inl (RateLimitError m (Some (Num r)) sc)"
    and "r \<noteq> 0"
    and "shouldRetry cfg (RateLimitError m (Some (Num r)) sc)"
    and "of_nat (Suc attempt) < maxAttempts cfg"
  shows
    "take (Suc (length sl)) (waits (withRetry_loop cfg fn attempt delay sl)) = sl @ [r * 1000]
   \<and> (fn (Suc attempt) = Inl e' \<and> \<not> rate_limit_hint e' \<and> shouldRetry cfg e'
        \<and> of_nat (Suc (Suc attempt)) < maxAttempts cfg \<longrightarrow>
      take (Suc (Suc (length sl))) (waits (withRetry_loop cfg fn attempt delay sl))
        = sl @ [r * 1000, min (r * 1000 * backoffFactor cfg) (maxDelay cfg)])"
proof -
  let ?e = "RateLimitError m (Some (Num r)) sc"
  let ?d = "min (r * 1000 * backoffFactor cfg) (maxDelay cfg)"
  from assms(2) have hint: "rate_limit_hint ?e" "hint_ms ?e = r * 1000"
    by (simp_all add: rate_limit_hint_def hint_ms_def instanceof_def)
  have step1: "withRetry_loop cfg fn attempt delay sl
      = withRetry_loop cfg fn (Suc attempt) ?d (sl @ [r * 1000])"
    using withRetry_loop_again[where fn=fn and attempt=attempt and e="?e" and cfg=cfg
        and delay=delay and sl=sl, OF assms(1) assms(3) assms(4)] hint
    by simp
  obtain more where more: "waits (withRetry_loop cfg fn (Suc attempt) ?d (sl @ [r * 1000]))
      = (sl @ [r * 1000]) @ more"
    using waits_extend by blast
  have one: "take (Suc (length sl)) (waits (withRetry_loop cfg fn attempt delay sl))
      = sl @ [r * 1000]"
    by (simp add: step1 more)
  have two: "take (Suc (Suc (length sl))) (waits (withRetry_loop cfg fn attempt delay sl))
        = sl @ [r * 1000, ?d]"
    if nxt: "fn (Suc attempt) = Inl e'" "\<not> rate_limit_hint e'" "shouldRetry cfg e'"
      "of_nat (Suc (Suc attempt)) < maxAttempts cfg"
  proof -
    have step2: "withRetry_loop cfg fn (Suc attempt) ?d (sl @ [r * 1000])
        = withRetry_loop cfg fn (Suc (Suc attempt)) (min (?d * backoffFactor cfg) (maxDelay cfg))
            ((sl @ [r * 1000]) @ [?d])"
      using withRetry_loop_again[where fn=fn and attempt="Suc attempt" and e=e' and cfg=cfg
          and delay="?d" and sl="sl @ [r * 1000]", OF nxt(1) nxt(3) nxt(4)] nxt(2)
      by simp
    obtain more2 where "waits (withRetry_loop cfg fn (Suc (Suc attempt))
          (min (?d * backoffFactor cfg) (maxDelay cfg)) ((sl @ [r * 1000]) @ [?d]))
        = ((sl @ [r * 1000]) @ [?d]) @ more2"
      using waits_extend by blast
    then show ?thesis by (simp add: step1 step2)
  qed
  from one two show ?thesis by blast
qed

theorem withRetry_hint_sets_delay_witness:
  "take 1 (waits (withRetry defaultConfig hint5_then_server)) = [5000]
   \<and> take 2 (waits (withRetry defaultConfig hint5_then_server)) = [5000, 10000]"
  using withRetry_hint_sets_delay[where fn=hint5_then_server and attempt=0
      and m="''Rate limited''" and r=5 and sc="Some 429" and cfg=defaultConfig and sl="[]"
      and e'="ServerError ''Server error'' (Some 503)" and delay="initialDelay defaultConfig"]
  by (simp add: withRetry_def defaultConfig_def shouldRetry_def instanceof_def
        rate_limit_hint_def hint5_then_server_def numeral_2_eq_2)

text \<open>
  The claim C3 as stated fails twice on the default policy. After a hint of 5 seconds the
  next retry without a hint waits 10000 ms, which is neither the delay reached before the
  hinted wait (1000 ms) nor its successor in the schedule (2000 ms). A hint of 0 is not
  used: the sleep is the current delay of 1000 ms, not 0 ms.
\<close>

theorem withRetry_hint_counterexample:
  "waits (withRetry defaultConfig hint5_then_server) = [5000, 10000]
   \<and> waits (withRetry defaultConfig hint5_then_server) ! 1 \<noteq> initialDelay defaultConfig
   \<and> waits (withRetry defaultConfig hint5_then_server) ! 1
       \<noteq> min (initialDelay defaultConfig * backoffFactor defaultConfig) (maxDelay defaultConfig)
   \<and> waits (withRetry defaultConfig hint0_then_success) = [initialDelay defaultConfig]
   \<and> waits (withRetry defaultConfig hint0_then_success) \<noteq> [0 * 1000]"
  by (simp add: withRetry_def withRetry_loop.simps defaultConfig_def shouldRetry_def
        instanceof_def rate_limit_hint_def hint_ms_def hint5_then_server_def
        hint0_then_success_def)

section \<open>Decimal strings and parseInt\<close>

lemma decimal_char_facts:
  assumes "c \<in> set ''0123456789''"
  shows "is_radix_digit 10 c" and "\<not> is_whitespace c" and "c \<noteq> CHR ''-''" and "c \<noteq> CHR ''+''"
    and "c \<noteq> CHR '',''" and "c \<noteq> CHR ''=''" and "c \<noteq> CHR ''x''" and "c \<noteq> CHR ''X''"
  using assms by (auto simp: is_radix_digit_def digit_value_def is_whitespace_def)

lemma digit_char_decimal: "d < 10 \<Longrightarrow> digit_char d \<in> set ''0123456789''"
proof -
  assume "d < 10"
  then have "d \<in> {0, 1, 2, 3, 4, 5, 6, 7, 8, 9}" by auto
  then show ?thesis by (auto simp: digit_char_def)
qed

lemma digit_value_digit_char: "d < 10 \<Longrightarrow> digit_value (digit_char d) = Some d"
proof -
  assume "d < 10"
  then have "d \<in> {0, 1, 2, 3, 4, 5, 6, 7, 8, 9}" by auto
  then show ?thesis by (auto simp: digit_char_def digit_value_def)
qed

lemma show_nat_decimal: "set (show_nat n) \<subseteq> set ''0123456789''"
proof (induction n rule: show_nat.induct)
  case (1 n)
  show ?case
  proof (cases "n < 10")
    case True
    then show ?thesis using digit_char_decimal[of n] by (subst show_nat.simps) simp
  next
    case False
    have "n mod 10 < 10" by simp
    with False "1.IH" digit_char_decimal[of "n mod 10"] show ?thesis
      by (subst show_nat.simps) simp
  qed
qed

lemma show_nat_nonempty: "show_nat n \<noteq> []"
  by (subst show_nat.simps) simp

lemma radix_value_snoc:
  "radix_value R (z @ [c]) = (case digit_value c of None \<Rightarrow> radix_value R z | Some v \<Rightarrow> radix_value R z * R + v)"
  by (simp add: radix_value_def split: option.splits)

lemma radix_value_show_nat: "radix_value 10 (show_nat n) = n"
proof (induction n rule: show_nat.induct)
  case (1 n)
  show ?case
  proof (cases "n < 10")
    case True
    then show ?thesis
      by (subst show_nat.simps) (simp add: radix_value_def digit_value_digit_char)
  next
    case False
    with "1.IH" show ?thesis
      by (subst show_nat.simps) (simp add: radix_value_snoc digit_value_digit_char)
  qed
qed

lemma takeWhile_decimal: "takeWhile (is_radix_digit 10) (show_nat n) = show_nat n"
  using show_nat_decimal[of n] decimal_char_facts(1)
  by (simp add: takeWhile_eq_all_conv subset_iff)

lemma hd_show_nat: "hd (show_nat n) \<in> set ''0123456789''"
  using show_nat_decimal[of n] show_nat_nonempty[of n] hd_in_set[of "show_nat n"] by blast

lemma show_nat_no_prefix: "take 2 (show_nat n) \<noteq> ''0x''" "take 2 (show_nat n) \<noteq> ''0X''"
proof -
  have sub: "set (take 2 (show_nat n)) \<subseteq> set ''0123456789''"
    using set_take_subset[of 2 "show_nat n"] show_nat_decimal[of n] by (rule subset_trans)
  show "take 2 (show_nat n) \<noteq> ''0x''"
  proof
    assume "take 2 (show_nat n) = ''0x''"
    with sub show False by simp
  qed
  show "take 2 (show_nat n) \<noteq> ''0X''"
  proof
    assume "take 2 (show_nat n) = ''0X''"
    with sub show False by simp
  qed
qed

lemma show_nat_no_space: "dropWhile is_whitespace (show_nat n) = show_nat n"
proof -
  have "\<not> is_whitespace (hd (show_nat n))"
    using hd_show_nat[of n] decimal_char_facts(2) by blast
  then show ?thesis by (simp add: dropWhile_eq_self_iff)
qed

lemma show_nat_no_sign: "hd (show_nat n) \<noteq> CHR ''-''" "hd (show_nat n) \<noteq> CHR ''+''"
  using hd_show_nat[of n] decimal_char_facts(3,4) by blast+

lemma parseInt_show_nat_10: "parseInt (show_nat n) (Some 10) = Num (of_nat n)"
  by (simp add: parseInt_def show_nat_no_space show_nat_no_sign show_nat_nonempty
        takeWhile_decimal radix_value_show_nat)

lemma parseInt_show_nat_default: "parseInt (show_nat n) None = Num (of_nat n)"
  by (simp add: parseInt_def show_nat_no_space show_nat_no_sign show_nat_nonempty
        show_nat_no_prefix takeWhile_decimal radix_value_show_nat)

lemma parseInt_show_int_10: "parseInt (show_int i) (Some 10) = Num (of_int i)"
proof (cases "i < 0")
  case False
  with parseInt_show_nat_10[of "nat i"] show ?thesis by (simp add: show_int_def)
next
  case True
  have ws: "\<not> is_whitespace CHR ''-''" by (simp add: is_whitespace_def)
  from True show ?thesis
    by (simp add: show_int_def parseInt_def ws show_nat_nonempty takeWhile_decimal
          radix_value_show_nat)
qed

lemma parseInt_show_int_default: "parseInt (show_int i) None = Num (of_int i)"
proof (cases "i < 0")
  case False
  with parseInt_show_nat_default[of "nat i"] show ?thesis by (simp add: show_int_def)
next
  case True
  have ws: "\<not> is_whitespace CHR ''-''" by (simp add: is_whitespace_def)
  from True show ?thesis
    by (simp add: show_int_def parseInt_def ws show_nat_nonempty show_nat_no_prefix
          takeWhile_decimal radix_value_show_nat)
qed

lemma show_int_no_separator: "CHR '','' \<notin> set (show_int i)" "CHR ''='' \<notin> set (show_int i)"
  using show_nat_decimal[of "nat i"] show_nat_decimal[of "nat (- i)"] decimal_char_facts(5,6)
  by (auto simp: show_int_def)

lemma show_int_nonempty: "show_int i \<noteq> []"
  by (simp add: show_int_def show_nat_nonempty)

lemma split_no_sep: "sep \<notin> set s \<Longrightarrow> split sep s = [s]"
  by (induction s) auto

lemma split_at_sep: "sep \<notin> set a \<Longrightarrow> split sep (a @ sep # b) = a # split sep b"
  by (induction a) auto

lemma hex_char_no_separator: "is_hex_char c \<Longrightarrow> c \<noteq> CHR '','' \<and> c \<noteq> CHR ''=''"
  by (auto simp: is_hex_char_def)

lemma hex_digest_no_separator:
  assumes "is_hex_digest d"
  shows "CHR '','' \<notin> set d" and "CHR ''='' \<notin> set d" and "d \<noteq> []"
proof -
  from assms have all: "\<forall>c\<in>set d. is_hex_char c" and len: "length d = 64"
    by (simp_all add: is_hex_digest_def list_all_iff)
  from all hex_char_no_separator show "CHR '','' \<notin> set d" by blast
  from all hex_char_no_separator show "CHR ''='' \<notin> set d" by blast
  from len show "d \<noteq> []" by auto
qed

section \<open>The Retry-After header of a 429 response\<close>

lemma retry_after_present:
  "resp_status response = 429 \<Longrightarrow> resp_retry_after response = Some h \<Longrightarrow> h \<noteq> [] \<Longrightarrow>
   handleResponseErrors response
     = Some (RateLimitError (error_message response) (Some (parseInt h None)) (Some 429))"
  by (simp add: handleResponseErrors_def)

lemma retry_after_absent:
  "resp_status response = 429 \<Longrightarrow>
   resp_retry_after response = None \<or> resp_retry_after response = Some [] \<Longrightarrow>
   handleResponseErrors response = Some (RateLimitError (error_message response) None (Some 429))"
  by (auto simp: handleResponseErrors_def)

lemma retry_after_seconds:
  "resp_status response = 429 \<Longrightarrow> resp_retry_after response = Some (show_int n) \<Longrightarrow>
   handleResponseErrors response
     = Some (RateLimitError (error_message response) (Some (Num (of_int n))) (Some 429))"
  by (simp add: handleResponseErrors_def show_int_nonempty parseInt_show_int_default)

lemma retry_after_scenario:
  "handleResponseErrors
     \<lparr>resp_status = 429,
      resp_json = Some \<lparr>error_text = Some ''slow down'', message_text = None\<rparr>,
      resp_retry_after = Some ''10''\<rparr>
   = Some (RateLimitError ''slow down'' (Some (Num 10)) (Some 429))"
  by (simp add: handleResponseErrors_def error_message_def parseInt_def is_whitespace_def
        is_radix_digit_def digit_value_def radix_value_def)

text \<open>
  C4. For a 429 response the mapper is to store the integer parsed from the \<open>Retry-After\<close>
  header, and \<open>null\<close> when the header is absent or cannot be parsed. The lemmas above
  give the first two cases. For a header that is present and is not a number, such as the
  HTTP-date form of \<open>Retry-After\<close>, the mapper stores what \<open>parseInt\<close> answers, which is
  \<open>NaN\<close> and not \<open>null\<close>.
\<close>

theorem retry_after_unparsable_is_NaN:
  "handleResponseErrors
     \<lparr>resp_status = 429,
      resp_json = Some \<lparr>error_text = Some ''slow down'', message_text = None\<rparr>,
      resp_retry_after = Some ''Wed, 21 Oct 2015 07:28:00 GMT''\<rparr>
   = Some (RateLimitError ''slow down'' (Some NaN) (Some 429))"
  by (simp add: handleResponseErrors_def error_message_def parseInt_def is_whitespace_def
        is_radix_digit_def digit_value_def)

section \<open>Signing and verifying webhooks\<close>

lemma split_t_pair:
  assumes "CHR ''='' \<notin> set ts"
  shows "split CHR ''='' (CHR ''t'' # CHR ''='' # ts) = [''t'', ts]"
  using split_at_sep[of "CHR ''=''" "''t''" ts] split_no_sep[OF assms]
  by (simp del: split.simps)

lemma split_v1_pair:
  assumes "CHR ''='' \<notin> set d"
  shows "split CHR ''='' (CHR ''v'' # CHR ''1'' # CHR ''='' # d) = [''v1'', d]"
  using split_at_sep[of "CHR ''=''" "''v1''" d] split_no_sep[OF assms]
  by (simp del: split.simps)

lemma split_header:
  assumes "CHR '','' \<notin> set ts" and "CHR '','' \<notin> set d"
  shows "split CHR '','' (CHR ''t'' # CHR ''='' # ts @ CHR '','' # CHR ''v'' # CHR ''1'' # CHR ''='' # d)
           = [CHR ''t'' # CHR ''='' # ts, CHR ''v'' # CHR ''1'' # CHR ''='' # d]"
  using split_at_sep[of "CHR '',''" "CHR ''t'' # CHR ''='' # ts" "CHR ''v'' # CHR ''1'' # CHR ''='' # d"]
    split_no_sep[of "CHR '',''" "CHR ''v'' # CHR ''1'' # CHR ''='' # d"] assms
  by (simp del: split.simps)

text \<open>The header \<open>t=<ts>,v1=<digest>\<close> is read back as exactly these two entries.\<close>

lemma header_parts:
  assumes "CHR '','' \<notin> set ts" "CHR ''='' \<notin> set ts" "ts \<noteq> []"
    and "CHR '','' \<notin> set d" "CHR ''='' \<notin> set d" "d \<noteq> []"
  shows "collect_parts (split CHR '','' (''t='' @ ts @ '',v1='' @ d)) Map.empty
           = [''t'' \<mapsto> ts, ''v1'' \<mapsto> d]"
  using assms(3,6)
  by (simp add: split_header[OF assms(1,4)] split_t_pair[OF assms(2)] split_v1_pair[OF assms(5)]
        del: split.simps)

text \<open>
  C1. For every payload and secret, a signature made by \<open>generateWebhookSignature\<close>
  verifies under the same secret with the default tolerance whenever the verifier's clock,
  in whole seconds, is within 300 seconds of the second of generation; the digest function
  is any function that produces a 64-character hexadecimal digest for the signed text.
\<close>

theorem webhook_round_trip:
  assumes "is_hex_digest (hmac secr (show_int (gen_clock div 1000) @ ''.'' @ payl))"
    and "\<bar>verify_clock div 1000 - gen_clock div 1000\<bar> \<le> 300"
  shows "verifyWebhookSignature hmac verify_clock
           \<lparr>payload = payl, signature = generateWebhookSignature hmac gen_clock payl secr,
            secret = secr, tolerance = None\<rparr>"
proof -
  let ?ts = "show_int (gen_clock div 1000)"
  let ?d = "hmac secr (?ts @ ''.'' @ payl)"
  note d = hex_digest_no_separator[OF assms(1)]
  have parts: "collect_parts (split CHR '','' (''t='' @ ?ts @ '',v1='' @ ?d)) Map.empty
           = [''t'' \<mapsto> ?ts, ''v1'' \<mapsto> ?d]"
    using show_int_no_separator show_int_nonempty d by (intro header_parts)
  have "\<bar>rat_of_int (verify_clock div 1000) - rat_of_int (gen_clock div 1000)\<bar>
          = rat_of_int \<bar>verify_clock div 1000 - gen_clock div 1000\<bar>"
    by simp
  also have "\<dots> \<le> rat_of_int 300" using assms(2) by (simp only: of_int_le_iff)
  finally have tol: "\<not> outside_tolerance (verify_clock div 1000)
      (parseInt ?ts (Some 10)) 300"
    by (simp add: parseInt_show_int_10)
  show ?thesis
    unfolding verifyWebhookSignature_def generateWebhookSignature_def Let_def
    using tol d(3) show_int_nonempty[of "gen_clock div 1000"] parts
    by (simp add: timingSafeEqual_def del: split.simps collect_parts.simps)
qed

theorem webhook_round_trip_witness:
  "verifyWebhookSignature example_hmac 1700000300999
     \<lparr>payload = ''{}'',
      signature = generateWebhookSignature example_hmac 1700000000123 ''{}'' ''whsec'',
      secret = ''whsec'', tolerance = None\<rparr>"
proof -
  have digest: "is_hex_digest
      (example_hmac ''whsec'' (show_int (1700000000123 div 1000) @ ''.'' @ ''{}''))"
    by (simp add: is_hex_digest_def is_hex_char_def example_hmac_def hex_char_def show_int_def
          show_nat.simps digit_char_def)
  have near: "\<bar>(1700000300999 :: int) div 1000 - 1700000000123 div 1000\<bar> \<le> 300"
    by simp
  from webhook_round_trip[where hmac=example_hmac and secr="''whsec''" and payl="''{}''"
      and gen_clock=1700000000123 and verify_clock=1700000300999] digest near
  show ?thesis by blast
qed

lemma clock_within_tolerance:
  "\<bar>verify_clock - gen_clock\<bar> \<le> 300000 \<Longrightarrow>
   \<bar>verify_clock div 1000 - gen_clock div 1000\<bar> \<le> (300 :: int)"
proof -
  assume near: "\<bar>verify_clock - gen_clock\<bar> \<le> 300000"
  define v where "v = verify_clock div 1000"
  define g where "g = gen_clock div 1000"
  have dv: "verify_clock = v * 1000 + verify_clock mod 1000" unfolding v_def by simp
  have dg: "gen_clock = g * 1000 + gen_clock mod 1000" unfolding g_def by simp
  have mv: "0 \<le> verify_clock mod 1000" "verify_clock mod 1000 < 1000" by simp_all
  have mg: "0 \<le> gen_clock mod 1000" "gen_clock mod 1000 < 1000" by simp_all
  from near dv dg mv mg have "\<bar>v - g\<bar> \<le> 300" by arith
  then show ?thesis by (simp only: v_def g_def)
qed

lemma timing_safe_comparison:
  "(case timingSafeEqual a b of Inl e \<Rightarrow> False | Inr r \<Rightarrow> r) = (a = b)"
  by (auto simp: timingSafeEqual_def)

lemma verify_rejects_missing_key:
  "collect_parts (split CHR '','' (signature options)) Map.empty ''t'' = None
     \<or> collect_parts (split CHR '','' (signature options)) Map.empty ''v1'' = None
   \<Longrightarrow> \<not> verifyWebhookSignature hmac clock_ms options"
  by (auto simp: verifyWebhookSignature_def Let_def split: option.splits)

lemma verify_rejects_outside_tolerance:
  "collect_parts (split CHR '','' (signature options)) Map.empty ''t'' = Some ts
   \<Longrightarrow> parseInt ts (Some 10) = Num t
   \<Longrightarrow> (case tolerance options of None \<Rightarrow> 300 | Some x \<Rightarrow> x) < \<bar>of_int (clock_ms div 1000) - t\<bar>
   \<Longrightarrow> \<not> verifyWebhookSignature hmac clock_ms options"
  by (auto simp: verifyWebhookSignature_def Let_def split: option.splits)

text \<open>
  C2. A header without a \<open>t\<close> entry or without a \<open>v1\<close> entry is rejected, and so is a
  header whose timestamp parses to a number outside the tolerance (the two lemmas above).
  A header with a malformed \<open>t\<close> is to be rejected too, but a \<open>t\<close> value that is not a
  number passes: \<open>parseInt\<close> answers \<open>NaN\<close>, the tolerance comparison with \<open>NaN\<close> is
  false, and the signature \<open>t=abc,v1=<digest of abc.payload>\<close> verifies at every clock
  reading and under every tolerance.
\<close>

theorem verify_accepts_non_numeric_timestamp:
  assumes "is_hex_digest (hmac secr (''abc.'' @ payl))"
  shows "verifyWebhookSignature hmac clock_ms
           \<lparr>payload = payl, signature = ''t=abc,v1='' @ hmac secr (''abc.'' @ payl),
            secret = secr, tolerance = tol\<rparr>"
proof -
  let ?d = "hmac secr (''abc.'' @ payl)"
  note d = hex_digest_no_separator[OF assms]
  have parts: "collect_parts (split CHR '','' (''t='' @ ''abc'' @ '',v1='' @ ?d)) Map.empty
           = [''t'' \<mapsto> ''abc'', ''v1'' \<mapsto> ?d]"
    using d by (intro header_parts) simp_all
  have nan: "parseInt ''abc'' (Some 10) = NaN"
    by (simp add: parseInt_def is_whitespace_def is_radix_digit_def digit_value_def)
  show ?thesis
    unfolding verifyWebhookSignature_def Let_def
    using d(3) parts
    by (simp add: nan timingSafeEqual_def del: split.simps collect_parts.simps)
qed

theorem verify_accepts_non_numeric_timestamp_witness:
  "verifyWebhookSignature example_hmac 1700000000123
     \<lparr>payload = ''{}'', signature = ''t=abc,v1='' @ example_hmac ''whsec'' (''abc.'' @ ''{}''),
      secret = ''whsec'', tolerance = None\<rparr>"
proof -
  have digest: "is_hex_digest (example_hmac ''whsec'' (''abc.'' @ ''{}''))"
    by (simp add: is_hex_digest_def is_hex_char_def example_hmac_def hex_char_def)
  from verify_accepts_non_numeric_timestamp[where hmac=example_hmac and secr="''whsec''"
      and payl="''{}''" and clock_ms=1700000000123 and tol=None] digest
  show ?thesis by blast
qed

end
